theory Spec2Isabelle
  imports Complex_Main
begin

section \<open>Data model (package models)\<close>

text \<open>
  A \<open>time.Time\<close> is modelled by the number of nanoseconds since the Unix epoch, an
  unbounded integer: \<open>time.Time\<close> covers a far wider range than the clock readings
  considered here (between 1970 and 2262, the range of \<open>UnixNano\<close>), so \<open>Add\<close> never
  saturates on them. Go's \<open>int\<close> and \<open>int64\<close> are integers with the two's complement
  wrap-around written out (\<open>wrap64\<close>) wherever the source does arithmetic on them.
\<close>

type_synonym Time = int

definition wrap64 :: "int \<Rightarrow> int" where
  "wrap64 n = (n + 9223372036854775808) mod 18446744073709551616 - 9223372036854775808"

definition UnixNano :: "Time \<Rightarrow> int" where
  "UnixNano t = wrap64 t"

definition Unix :: "Time \<Rightarrow> int" where
  "Unix t = t div 1000000000"

record User =
  ID :: int
  Username :: string
  Email :: string
  Password :: string
  Role :: string
  IsActive :: bool
  CreatedAt :: Time
  UpdatedAt :: Time
  LastLogin :: "Time option"

record UserCreateRequest =
  cr_Username :: string
  cr_Email :: string
  cr_Password :: string
  cr_Role :: string

record UserUpdateRequest =
  up_Username :: string
  up_Email :: string
  up_Role :: string
  up_IsActive :: "bool option"

record LoginRequest =
  lg_Username :: string
  lg_Password :: string

record JWTPayload =
  UserID :: int
  jp_Username :: string
  jp_Role :: string
  Exp :: int
  Iat :: int

record UserListResponse =
  Users :: "User list"
  Total :: int
  Page :: int
  PerPage :: int
  TotalPages :: int

section \<open>The user directory (package database)\<close>

text \<open>
  The \<open>users\<close> table is the MergeTree table that \<open>InitClickHouseTables\<close> creates,
  without any uniqueness constraint: a list of rows. Every driver call may fail on its
  own; \<open>conn_fails\<close> says which statements currently fail (each operation of the
  service issues a statement at most once, so one flag per statement covers every
  combination of failures). The \<open>DateTime\<close> columns hold whole seconds.
\<close>

datatype db_op =
  QueryUserByID | QueryUserByUsername | QueryUserByEmail
  | ExecInsertUser | ExecUpdateUser | ExecUpdateUserLastLogin
  | QueryCountUsers | QueryListUsers

datatype db_error = ErrNoRows | ErrDriver db_op | ErrBadLimit | ErrConvert

text \<open>
  An \<open>ALTER TABLE ... UPDATE\<close> is a mutation: the statement returns once the mutation
  is queued, and the server applies the queue in the background (\<open>run_mutations\<close>).
\<close>

datatype mutation =
  SetProfile int string string string bool Time
  | SetLastLogin int Time Time

record ClickHouseDB =
  users :: "User list"
  mutations :: "mutation list"
  conn_fails :: "db_op \<Rightarrow> bool"

definition DateTime :: "Time \<Rightarrow> Time" where
  "DateTime t = (t div 1000000000) * 1000000000"

fun apply_mutation :: "mutation \<Rightarrow> User list \<Rightarrow> User list" where
  "apply_mutation (SetProfile userID username email role active updated) rows =
     map (\<lambda>r. if ID r = userID
              then r\<lparr>Username := username, Email := email, Role := role, IsActive := active,
                     UpdatedAt := updated\<rparr>
              else r) rows"
| "apply_mutation (SetLastLogin userID lastLogin updated) rows =
     map (\<lambda>r. if ID r = userID then r\<lparr>LastLogin := Some lastLogin, UpdatedAt := updated\<rparr>
              else r) rows"

definition run_mutations :: "ClickHouseDB \<Rightarrow> ClickHouseDB" where
  "run_mutations ch =
     ch\<lparr>users := foldl (\<lambda>rows m. apply_mutation m rows) (users ch) (mutations ch),
        mutations := []\<rparr>"

text \<open>
  The column \<open>id\<close> is a \<open>UInt64\<close>, and so is \<open>COUNT(*)\<close>; the code scans both into
  an \<open>int64\<close> (\<open>User.ID\<close>, \<open>var total int64\<close>), a conversion that the driver
  refuses: \<open>Scan\<close> returns a conversion error whatever the value.
\<close>

definition Scan_UInt64_int64 :: "int \<Rightarrow> db_error + int" where
  "Scan_UInt64_int64 v = Inl ErrConvert"

text \<open>
  A \<open>QueryRow\<close> whose \<open>LIMIT 1\<close> query matches no row makes \<open>Scan\<close> return
  \<open>ErrNoRows\<close>; among several matching rows the first in storage order is scanned.
\<close>

definition QueryRow :: "ClickHouseDB \<Rightarrow> db_op \<Rightarrow> (User \<Rightarrow> bool) \<Rightarrow> db_error + User" where
  "QueryRow ch op matches =
     (if conn_fails ch op then Inl (ErrDriver op)
      else case find matches (users ch) of
             None \<Rightarrow> Inl ErrNoRows
           | Some u \<Rightarrow>
               (case Scan_UInt64_int64 (ID u) of
                  Inl err \<Rightarrow> Inl err
                | Inr userID \<Rightarrow> Inr (u\<lparr>ID := userID\<rparr>)))"

definition GetUserByID :: "ClickHouseDB \<Rightarrow> int \<Rightarrow> db_error + User" where
  "GetUserByID ch userID = QueryRow ch QueryUserByID (\<lambda>u. ID u = userID)"

definition GetUserByUsername :: "ClickHouseDB \<Rightarrow> string \<Rightarrow> db_error + User" where
  "GetUserByUsername ch username = QueryRow ch QueryUserByUsername (\<lambda>u. Username u = username)"

definition GetUserByEmail :: "ClickHouseDB \<Rightarrow> string \<Rightarrow> db_error + User" where
  "GetUserByEmail ch email = QueryRow ch QueryUserByEmail (\<lambda>u. Email u = email)"

text \<open>
  \<open>InsertUser\<close> reads the clock for the identifier it returns, but its \<open>INSERT\<close> names
  the columns \<open>username, email, password, role, is_active, created_at, updated_at\<close>
  only: the stored row gets the defaults of the columns left out, 0 for \<open>id UInt64\<close> and
  NULL for \<open>last_login Nullable(DateTime)\<close>.
\<close>

definition InsertUser :: "ClickHouseDB \<Rightarrow> Time \<Rightarrow> User \<Rightarrow> (db_error + int) \<times> ClickHouseDB" where
  "InsertUser ch now user =
     (let userID = UnixNano now in
      if conn_fails ch ExecInsertUser then (Inl (ErrDriver ExecInsertUser), ch)
      else (Inr userID,
            ch\<lparr>users := users ch @
                 [user\<lparr>ID := 0, CreatedAt := DateTime (CreatedAt user),
                       UpdatedAt := DateTime (UpdatedAt user), LastLogin := None\<rparr>]\<rparr>))"

definition ClickHouseDB_UpdateUser :: "ClickHouseDB \<Rightarrow> User \<Rightarrow> db_error option \<times> ClickHouseDB" where
  "ClickHouseDB_UpdateUser ch user =
     (if conn_fails ch ExecUpdateUser then (Some (ErrDriver ExecUpdateUser), ch)
      else (None,
            ch\<lparr>mutations := mutations ch @
                 [SetProfile (ID user) (Username user) (Email user) (Role user) (IsActive user)
                    (DateTime (UpdatedAt user))]\<rparr>))"

definition UpdateUserLastLogin :: "ClickHouseDB \<Rightarrow> Time \<Rightarrow> int \<Rightarrow> Time \<Rightarrow> db_error option \<times> ClickHouseDB" where
  "UpdateUserLastLogin ch now userID lastLogin =
     (if conn_fails ch ExecUpdateUserLastLogin then (Some (ErrDriver ExecUpdateUserLastLogin), ch)
      else (None,
            ch\<lparr>mutations := mutations ch @
                 [SetLastLogin userID (DateTime lastLogin) (DateTime now)]\<rparr>))"

text \<open>
  Go's integer division truncates towards zero and panics on a zero divisor; the
  quotient of the least \<open>int64\<close> by \<open>-1\<close> wraps around.
\<close>

definition go_div :: "int \<Rightarrow> int \<Rightarrow> int" where
  "go_div a b = wrap64 (sgn a * sgn b * (\<bar>a\<bar> div \<bar>b\<bar>))"

text \<open>
  \<open>GetUsers\<close>: the count query, whose \<open>COUNT(*)\<close> is scanned into \<open>total\<close>, then
  the page query \<open>ORDER BY created_at DESC LIMIT perPage OFFSET offset\<close>, which selects
  every column but the password and whose rows are scanned one by one, then the page
  count. Rows created at the same time keep their storage order. A negative \<open>LIMIT\<close>
  or \<open>OFFSET\<close> is a query error, and the division by a zero page size the panic it is
  in Go.
\<close>

datatype list_error = QueryFailed db_error | PanicDivideByZero

fun scan_rows :: "User list \<Rightarrow> db_error + User list" where
  "scan_rows [] = Inr []"
| "scan_rows (r # rs) =
     (case Scan_UInt64_int64 (ID r) of
        Inl err \<Rightarrow> Inl err
      | Inr userID \<Rightarrow>
          (case scan_rows rs of
             Inl err \<Rightarrow> Inl err
           | Inr found \<Rightarrow> Inr (r\<lparr>ID := userID, Password := []\<rparr> # found)))"

definition ClickHouseDB_GetUsers :: "ClickHouseDB \<Rightarrow> int \<Rightarrow> int \<Rightarrow> string \<Rightarrow> list_error + UserListResponse" where
  "ClickHouseDB_GetUsers ch page perPage role =
     (let offset = wrap64 (wrap64 (page - 1) * perPage);
          selected = (if role \<noteq> [] then filter (\<lambda>u. Role u = role) (users ch) else users ch)
      in if conn_fails ch QueryCountUsers then Inl (QueryFailed (ErrDriver QueryCountUsers))
         else case Scan_UInt64_int64 (int (length selected)) of
                Inl err \<Rightarrow> Inl (QueryFailed err)
              | Inr total' \<Rightarrow>
           if conn_fails ch QueryListUsers then Inl (QueryFailed (ErrDriver QueryListUsers))
           else if perPage < 0 \<or> offset < 0 then Inl (QueryFailed ErrBadLimit)
           else case scan_rows (take (nat perPage) (drop (nat offset)
                                  (sort_key (\<lambda>u. - CreatedAt u) selected))) of
                  Inl err \<Rightarrow> Inl (QueryFailed err)
                | Inr found \<Rightarrow>
                    if perPage = 0 then Inl PanicDivideByZero
                    else Inr \<lparr>Users = found, Total = total', Page = page, PerPage = perPage,
                              TotalPages = go_div (wrap64 (wrap64 (total' + perPage) - 1))
                                             perPage\<rparr>)"

section \<open>Password hashing (bcrypt) and the token library (golang-jwt)\<close>

text \<open>
  bcrypt is taken as a parameter: \<open>GenerateFromPassword\<close> (salted, it may fail) and
  \<open>CompareHashAndPassword\<close> (\<open>True\<close> when the library returns no error).
\<close>

record Bcrypt =
  GenerateFromPassword :: "string \<Rightarrow> unit + string"
  CompareHashAndPassword :: "string \<Rightarrow> string \<Rightarrow> bool"

text \<open>
  The claims of a token under construction hold Go values (\<open>int64\<close> and \<open>string\<close>),
  which JSON encodes exactly. Parsing decodes every JSON number into a \<open>float64\<close>: the
  double nearest to the number, ties to the even significand. All numbers here are
  integers, so a \<open>float64\<close> is modelled by the integer it holds.
\<close>

datatype claim = Number int | Text string

type_synonym MapClaims = "(string \<times> claim) list"

datatype decoded = Float64 int | Str string

fun bit_length :: "nat \<Rightarrow> nat" where
  "bit_length n = (if n = 0 then 0 else Suc (bit_length (n div 2)))"

declare bit_length.simps [simp del]

definition float64_of_int :: "int \<Rightarrow> int" where
  "float64_of_int n =
     (let a = nat \<bar>n\<bar>;
          e = bit_length a - 53;
          q = a div 2 ^ e;
          r = a mod 2 ^ e;
          up = (2 * r > 2 ^ e \<or> (2 * r = 2 ^ e \<and> odd q))
      in sgn n * int ((if up then q + 1 else q) * 2 ^ e))"

text \<open>
  The conversion \<open>int64(f)\<close> of an integral \<open>float64\<close>; outside the range of
  \<open>int64\<close> Go leaves the result to the implementation, and amd64 gives the least
  \<open>int64\<close>.
\<close>

definition int64_of_float64 :: "int \<Rightarrow> int" where
  "int64_of_float64 f =
     (if - 9223372036854775808 \<le> f \<and> f < 9223372036854775808 then f
      else - 9223372036854775808)"

text \<open>
  Strings are byte sequences. \<open>encoding/json\<close> writes and reads text as UTF-8, and both
  ways it replaces every byte that does not start a well-formed UTF-8 sequence by the
  replacement character U+FFFD (the bytes EF BF BD). \<open>rune_length\<close> is the length of
  the well-formed sequence at the head of the bytes, 0 when there is none.
\<close>

definition continuation :: "nat \<Rightarrow> bool" where
  "continuation b = (128 \<le> b \<and> b \<le> 191)"

definition second_byte :: "nat \<Rightarrow> nat \<Rightarrow> bool" where
  "second_byte b0 b1 =
     (if b0 = 224 then 160 \<le> b1 \<and> b1 \<le> 191
      else if b0 = 237 then 128 \<le> b1 \<and> b1 \<le> 159
      else if b0 = 240 then 144 \<le> b1 \<and> b1 \<le> 191
      else if b0 = 244 then 128 \<le> b1 \<and> b1 \<le> 143
      else continuation b1)"

definition rune_length :: "nat list \<Rightarrow> nat" where
  "rune_length bs =
     (case bs of
        [] \<Rightarrow> 0
      | b0 # rest \<Rightarrow>
          if b0 < 128 then 1
          else if 194 \<le> b0 \<and> b0 \<le> 223
          then (case rest of b1 # _ \<Rightarrow> if continuation b1 then 2 else 0 | _ \<Rightarrow> 0)
          else if 224 \<le> b0 \<and> b0 \<le> 239
          then (case rest of
                  b1 # b2 # _ \<Rightarrow> if second_byte b0 b1 \<and> continuation b2 then 3 else 0
                | _ \<Rightarrow> 0)
          else if 240 \<le> b0 \<and> b0 \<le> 244
          then (case rest of
                  b1 # b2 # b3 # _ \<Rightarrow>
                    if second_byte b0 b1 \<and> continuation b2 \<and> continuation b3 then 4 else 0
                | _ \<Rightarrow> 0)
          else 0)"

definition RuneError :: string where
  "RuneError = [CHR 0xEF, CHR 0xBF, CHR 0xBD]"

text \<open>\<open>coerce k s\<close>: the first \<open>k\<close> bytes of \<open>s\<close> finish a sequence already accepted.\<close>

fun coerce :: "nat \<Rightarrow> string \<Rightarrow> string" where
  "coerce k [] = []"
| "coerce (Suc k) (c # cs) = c # coerce k cs"
| "coerce 0 (c # cs) =
     (let n = rune_length (map of_char (c # cs))
      in if n = 0 then RuneError @ coerce 0 cs else c # coerce (n - 1) cs)"

definition ToValidUTF8 :: "string \<Rightarrow> string" where
  "ToValidUTF8 s = coerce 0 s"

fun marshal_claim :: "claim \<Rightarrow> claim" where
  "marshal_claim (Number n) = Number n"
| "marshal_claim (Text s) = Text (ToValidUTF8 s)"

fun decode_claim :: "claim \<Rightarrow> decoded" where
  "decode_claim (Number n) = Float64 (float64_of_int n)"
| "decode_claim (Text s) = Str (ToValidUTF8 s)"

text \<open>
  The compact serialisation is modelled by what it carries: the signing method named in
  the header, the claims and the signature; any other string is \<open>Garbled\<close>. The MAC is
  symbolic: a signature is the method, the key and the signed claims, so it verifies
  under exactly the key and content it was made with.
\<close>

datatype SigningMethod = SigningMethodHMAC string | SigningMethodOther string

datatype signature = Mac SigningMethod string MapClaims

datatype token_string = Compact SigningMethod MapClaims signature | Garbled string

datatype jwt_error =
  ErrTokenMalformed | ErrTokenUnverifiable | ErrTokenSignatureInvalid
  | ErrTokenExpired | ErrTokenInvalidClaims

definition SigningMethodHS256 :: SigningMethod where
  "SigningMethodHS256 = SigningMethodHMAC ''HS256''"

text \<open>\<open>SignedString\<close> marshals the claims to JSON and signs what it has marshalled.\<close>

definition SignedString :: "SigningMethod \<Rightarrow> MapClaims \<Rightarrow> string \<Rightarrow> jwt_error + token_string" where
  "SignedString method claims key =
     (let marshalled = map (\<lambda>(k, v). (ToValidUTF8 k, marshal_claim v)) claims
      in Inr (Compact method marshalled (Mac method key marshalled)))"

text \<open>
  \<open>jwt.Parse\<close>: the structure first, then the key function, then the signature, then
  the registered claims, of which these tokens carry \<open>exp\<close>: the token is accepted
  while the clock reads before the expiry (in seconds). An \<open>exp\<close> of 0 is read as no
  expiry at all.
\<close>

definition jwt_Parse ::
  "(SigningMethod \<Rightarrow> unit + string) \<Rightarrow> Time \<Rightarrow> token_string \<Rightarrow> jwt_error + (string \<times> decoded) list" where
  "jwt_Parse keyFunc now tokenString =
     (case tokenString of
        Garbled _ \<Rightarrow> Inl ErrTokenMalformed
      | Compact method claims sig \<Rightarrow>
          (case keyFunc method of
             Inl _ \<Rightarrow> Inl ErrTokenUnverifiable
           | Inr key \<Rightarrow>
               if sig \<noteq> Mac method key claims then Inl ErrTokenSignatureInvalid
               else (case map_of claims ''exp'' of
                       None \<Rightarrow> Inr (map (\<lambda>(k, v). (k, decode_claim v)) claims)
                     | Some (Text _) \<Rightarrow> Inl ErrTokenInvalidClaims
                     | Some (Number e) \<Rightarrow>
                         if float64_of_int e = 0 \<or> now < float64_of_int e * 1000000000
                         then Inr (map (\<lambda>(k, v). (k, decode_claim v)) claims)
                         else Inl ErrTokenExpired)))"

section \<open>The auth service (package services)\<close>

record AuthService =
  jwtSecret :: string
  jwtExpire :: int

datatype auth_error =
  UsernameExists string
  | EmailExists string
  | HashFailed
  | CreateFailed db_error
  | InvalidCredentials
  | AccountDisabled
  | TokenGenerationFailed jwt_error
  | InvalidToken jwt_error
  | InvalidClaim string
  | UserNotFound db_error
  | UsernameTaken string
  | EmailTaken string
  | UpdateFailed db_error

text \<open>The message of each error, as \<open>fmt.Errorf\<close> builds it (the wrapped cause left out).\<close>

fun Error :: "auth_error \<Rightarrow> string" where
  "Error (UsernameExists n) = ''user with username '' @ n @ '' already exists''"
| "Error (EmailExists e) = ''user with email '' @ e @ '' already exists''"
| "Error HashFailed = ''failed to hash password''"
| "Error (CreateFailed _) = ''failed to create user''"
| "Error InvalidCredentials = ''invalid credentials''"
| "Error AccountDisabled = ''account is disabled''"
| "Error (TokenGenerationFailed _) = ''failed to generate token''"
| "Error (InvalidToken _) = ''invalid token''"
| "Error (InvalidClaim k) = ''invalid '' @ k @ '' in token''"
| "Error (UserNotFound _) = ''user not found''"
| "Error (UsernameTaken n) = ''username '' @ n @ '' is already taken''"
| "Error (EmailTaken e) = ''email '' @ e @ '' is already taken''"
| "Error (UpdateFailed _) = ''failed to update user''"

definition Register ::
  "Bcrypt \<Rightarrow> ClickHouseDB \<Rightarrow> Time \<Rightarrow> Time \<Rightarrow> Time \<Rightarrow> UserCreateRequest
     \<Rightarrow> (auth_error + User) \<times> ClickHouseDB" where
  "Register bc ch now_created now_updated now_id req =
     (case GetUserByUsername ch (cr_Username req) of
        Inr existingUser \<Rightarrow> (Inl (UsernameExists (cr_Username req)), ch)
      | Inl _ \<Rightarrow>
     (case GetUserByEmail ch (cr_Email req) of
        Inr existingEmail \<Rightarrow> (Inl (EmailExists (cr_Email req)), ch)
      | Inl _ \<Rightarrow>
     (case GenerateFromPassword bc (cr_Password req) of
        Inl _ \<Rightarrow> (Inl HashFailed, ch)
      | Inr hashedPassword \<Rightarrow>
          let role = (if cr_Role req = [] then ''user'' else cr_Role req);
              user = \<lparr>ID = 0, Username = cr_Username req, Email = cr_Email req,
                      Password = hashedPassword, Role = role, IsActive = True,
                      CreatedAt = now_created, UpdatedAt = now_updated, LastLogin = None\<rparr>
          in (case InsertUser ch now_id user of
                (Inl e, ch') \<Rightarrow> (Inl (CreateFailed e), ch')
              | (Inr userID, ch') \<Rightarrow> (Inr (user\<lparr>ID := userID, Password := []\<rparr>), ch')))))"

definition GenerateJWT ::
  "AuthService \<Rightarrow> Time \<Rightarrow> string \<Rightarrow> int \<Rightarrow> string \<Rightarrow> string \<Rightarrow> jwt_error + (token_string \<times> Time)" where
  "GenerateJWT s now jti userID username role =
     (let expiresAt = now + wrap64 (jwtExpire s * 3600000000000);
          claims = [(''user_id'', Number userID), (''username'', Text username),
                    (''role'', Text role), (''exp'', Number (Unix expiresAt)),
                    (''iat'', Number (Unix now)), (''jti'', Text jti)]
      in case SignedString SigningMethodHS256 claims (jwtSecret s) of
           Inl err \<Rightarrow> Inl err
         | Inr tokenString \<Rightarrow> Inr (tokenString, expiresAt))"

definition keyFunc :: "AuthService \<Rightarrow> SigningMethod \<Rightarrow> unit + string" where
  "keyFunc s method =
     (case method of SigningMethodHMAC _ \<Rightarrow> Inr (jwtSecret s) | SigningMethodOther _ \<Rightarrow> Inl ())"

text \<open>
  \<open>ValidateJWT\<close>: after a parse without error the token is valid and its claims are
  \<open>MapClaims\<close>, so of the source's checks those two cannot fail; the others read the
  claims by type assertion.
\<close>

definition ValidateJWT :: "AuthService \<Rightarrow> Time \<Rightarrow> token_string \<Rightarrow> auth_error + JWTPayload" where
  "ValidateJWT s now tokenString =
     (case jwt_Parse (keyFunc s) now tokenString of
        Inl err \<Rightarrow> Inl (InvalidToken err)
      | Inr claims \<Rightarrow>
     (case map_of claims ''user_id'' of
        Some (Float64 userID) \<Rightarrow>
     (case map_of claims ''username'' of
        Some (Str username) \<Rightarrow>
     (case map_of claims ''role'' of
        Some (Str role) \<Rightarrow>
     (case map_of claims ''exp'' of
        Some (Float64 expiry) \<Rightarrow>
     (case map_of claims ''iat'' of
        Some (Float64 iat) \<Rightarrow>
          Inr \<lparr>UserID = int64_of_float64 userID, jp_Username = username, jp_Role = role,
               Exp = int64_of_float64 expiry, Iat = int64_of_float64 iat\<rparr>
      | _ \<Rightarrow> Inl (InvalidClaim ''iat''))
      | _ \<Rightarrow> Inl (InvalidClaim ''exp''))
      | _ \<Rightarrow> Inl (InvalidClaim ''role''))
      | _ \<Rightarrow> Inl (InvalidClaim ''username''))
      | _ \<Rightarrow> Inl (InvalidClaim ''user_id'')))"

record LoginResponse =
  Token :: token_string
  ExpiresAt :: Time
  lr_User :: User

definition Login ::
  "Bcrypt \<Rightarrow> AuthService \<Rightarrow> ClickHouseDB \<Rightarrow> Time \<Rightarrow> string \<Rightarrow> Time \<Rightarrow> Time \<Rightarrow> LoginRequest
     \<Rightarrow> (auth_error + LoginResponse) \<times> ClickHouseDB" where
  "Login bc s ch now_token jti now_login now_update req =
     (case GetUserByUsername ch (lg_Username req) of
        Inl _ \<Rightarrow> (Inl InvalidCredentials, ch)
      | Inr user \<Rightarrow>
          if \<not> IsActive user then (Inl AccountDisabled, ch)
          else if \<not> CompareHashAndPassword bc (Password user) (lg_Password req)
          then (Inl InvalidCredentials, ch)
          else (case GenerateJWT s now_token jti (ID user) (Username user) (Role user) of
                  Inl err \<Rightarrow> (Inl (TokenGenerationFailed err), ch)
                | Inr (token, expiresAt) \<Rightarrow>
                    let ch' = snd (UpdateUserLastLogin ch now_update (ID user) now_login)
                    in (Inr \<lparr>Token = token, ExpiresAt = expiresAt,
                             lr_User = user\<lparr>LastLogin := Some now_login, Password := []\<rparr>\<rparr>,
                        ch')))"

definition AuthService_UpdateUser ::
  "ClickHouseDB \<Rightarrow> Time \<Rightarrow> int \<Rightarrow> UserUpdateRequest \<Rightarrow> (auth_error + User) \<times> ClickHouseDB" where
  "AuthService_UpdateUser ch now userID req =
     (case GetUserByID ch userID of
        Inl err \<Rightarrow> (Inl (UserNotFound err), ch)
      | Inr user \<Rightarrow>
          if up_Username req \<noteq> [] \<and>
             (case GetUserByUsername ch (up_Username req) of
                Inr existingUser \<Rightarrow> ID existingUser \<noteq> userID | Inl _ \<Rightarrow> False)
          then (Inl (UsernameTaken (up_Username req)), ch)
          else let user1 = (if up_Username req \<noteq> [] then user\<lparr>Username := up_Username req\<rparr> else user)
          in if up_Email req \<noteq> [] \<and>
                (case GetUserByEmail ch (up_Email req) of
                   Inr existingUser \<Rightarrow> ID existingUser \<noteq> userID | Inl _ \<Rightarrow> False)
          then (Inl (EmailTaken (up_Email req)), ch)
          else let user2 = (if up_Email req \<noteq> [] then user1\<lparr>Email := up_Email req\<rparr> else user1);
                   user3 = (if up_Role req \<noteq> [] then user2\<lparr>Role := up_Role req\<rparr> else user2);
                   user4 = (case up_IsActive req of
                              Some b \<Rightarrow> user3\<lparr>IsActive := b\<rparr> | None \<Rightarrow> user3);
                   user5 = user4\<lparr>UpdatedAt := now\<rparr>
          in (case ClickHouseDB_UpdateUser ch user5 of
                (Some err, ch') \<Rightarrow> (Inl (UpdateFailed err), ch')
              | (None, ch') \<Rightarrow> (Inr (user5\<lparr>Password := []\<rparr>), ch')))"

definition AuthService_GetUsers :: "ClickHouseDB \<Rightarrow> int \<Rightarrow> int \<Rightarrow> string \<Rightarrow> list_error + UserListResponse" where
  "AuthService_GetUsers ch page perPage role = ClickHouseDB_GetUsers ch page perPage role"

section \<open>The request context, the users handler and the access gate\<close>

text \<open>
  Of an \<open>echo.Context\<close> the model keeps the \<open>Authorization\<close> header (empty when
  absent), the query parameters of the users listing (\<open>page\<close> and \<open>per_page\<close> as
  \<open>strconv.Atoi\<close> returns them, 0 for a missing or non-numeric value) and the values
  bound with \<open>c.Set\<close>.
\<close>

datatype ctx_value = Int64Val int | StringVal string

record Context =
  Authorization :: string
  query_page :: int
  query_per_page :: int
  query_role :: string
  store :: "string \<Rightarrow> ctx_value option"

datatype api_data = NoData | UserList UserListResponse

record APIResponse =
  Success :: bool
  Data :: api_data
  ErrorText :: string

datatype outcome = JSON nat APIResponse | Panic

type_synonym HandlerFunc = "Context \<Rightarrow> outcome"

text \<open>
  The page and the page size as the handler reads them from the query (the values it
  then passes to the service).
\<close>

definition GetUsers_pagination :: "Context \<Rightarrow> int \<times> int" where
  "GetUsers_pagination c =
     (let page = (if query_page c < 1 then 1 else query_page c);
          perPage = (if query_per_page c < 1 \<or> query_per_page c > 100 then 10
                     else query_per_page c)
      in (page, perPage))"

definition AuthHandler_GetUsers :: "ClickHouseDB \<Rightarrow> HandlerFunc" where
  "AuthHandler_GetUsers ch c =
     (if store c ''user_role'' \<noteq> Some (StringVal ''admin'')
      then JSON 403 \<lparr>Success = False, Data = NoData,
                     ErrorText = ''Access denied - admin role required''\<rparr>
      else let page = (if query_page c < 1 then 1 else query_page c);
               perPage = (if query_per_page c < 1 \<or> query_per_page c > 100 then 10
                          else query_per_page c);
               role = query_role c
           in case AuthService_GetUsers ch page perPage role of
                Inl (QueryFailed _) \<Rightarrow>
                  JSON 500 \<lparr>Success = False, Data = NoData, ErrorText = ''Failed to get users''\<rparr>
              | Inl PanicDivideByZero \<Rightarrow> Panic
              | Inr found \<Rightarrow> JSON 200 \<lparr>Success = True, Data = UserList found, ErrorText = []\<rparr>)"

definition HasPrefix :: "string \<Rightarrow> string \<Rightarrow> bool" where
  "HasPrefix s pre = (take (length pre) s = pre)"

definition TrimPrefix :: "string \<Rightarrow> string \<Rightarrow> string" where
  "TrimPrefix s pre = (if HasPrefix s pre then drop (length pre) s else s)"

text \<open>
  The gate's configuration: the skipper (\<open>None\<close> for \<open>nil\<close>), the auth service, of
  which the gate calls \<open>ValidateJWT\<close> on the token text, and the required role.
\<close>

record JWTConfig =
  Skipper :: "(Context \<Rightarrow> bool) option"
  AuthService_ValidateJWT :: "string \<Rightarrow> auth_error + JWTPayload"
  RequiredRole :: string

definition DefaultSkipper :: "Context \<Rightarrow> bool" where
  "DefaultSkipper c = False"

definition unauthorized :: "string \<Rightarrow> outcome" where
  "unauthorized msg = JSON 401 \<lparr>Success = False, Data = NoData, ErrorText = msg\<rparr>"

definition JWTWithConfig :: "JWTConfig \<Rightarrow> HandlerFunc \<Rightarrow> HandlerFunc" where
  "JWTWithConfig config next c =
     (let skipper = (case Skipper config of None \<Rightarrow> DefaultSkipper | Some f \<Rightarrow> f) in
      if skipper c then next c
      else let authHeader = Authorization c in
      if authHeader = [] then unauthorized ''Missing Authorization header''
      else if \<not> HasPrefix authHeader ''Bearer ''
      then unauthorized ''Invalid Authorization header format''
      else let token = TrimPrefix authHeader ''Bearer '' in
      if token = [] then unauthorized ''Empty token''
      else (case AuthService_ValidateJWT config token of
              Inl err \<Rightarrow> unauthorized ''Invalid token''
            | Inr payload \<Rightarrow>
                if RequiredRole config \<noteq> [] \<and> jp_Role payload \<noteq> RequiredRole config
                then JSON 403 \<lparr>Success = False, Data = NoData,
                               ErrorText = ''Insufficient permissions''\<rparr>
                else next (c\<lparr>store := (store c)
                              (''user_id'' \<mapsto> Int64Val (UserID payload),
                               ''username'' \<mapsto> StringVal (jp_Username payload),
                               ''user_role'' \<mapsto> StringVal (jp_Role payload))\<rparr>)))"

definition RequireAdmin :: "(string \<Rightarrow> auth_error + JWTPayload) \<Rightarrow> HandlerFunc \<Rightarrow> HandlerFunc" where
  "RequireAdmin validate =
     JWTWithConfig \<lparr>Skipper = Some DefaultSkipper, AuthService_ValidateJWT = validate,
                    RequiredRole = ''admin''\<rparr>"

section \<open>Example inputs\<close>

definition example_bcrypt :: Bcrypt where
  "example_bcrypt = \<lparr>GenerateFromPassword = (\<lambda>p. Inr (''$2a$'' @ p)),
                      CompareHashAndPassword = (\<lambda>h p. h = ''$2a$'' @ p)\<rparr>"

definition example_service :: AuthService where
  "example_service = \<lparr>jwtSecret = ''k3y'', jwtExpire = 24\<rparr>"

definition no_users :: ClickHouseDB where
  "no_users = \<lparr>users = [], mutations = [], conn_fails = (\<lambda>op. False)\<rparr>"

definition alice_request :: UserCreateRequest where
  "alice_request = \<lparr>cr_Username = ''alice'', cr_Email = ''alice@x.com'',
                     cr_Password = ''secret1'', cr_Role = []\<rparr>"

definition alice :: User where
  "alice = \<lparr>ID = 7, Username = ''alice'', Email = ''alice@x.com'', Password = ''$2a$secret1'',
             Role = ''user'', IsActive = True, CreatedAt = 1000, UpdatedAt = 1000,
             LastLogin = None\<rparr>"

definition bob :: User where
  "bob = \<lparr>ID = 8, Username = ''bob'', Email = ''bob@x.com'', Password = ''$2a$hunter2'',
           Role = ''admin'', IsActive = False, CreatedAt = 2000, UpdatedAt = 2000,
           LastLogin = None\<rparr>"

definition directory :: ClickHouseDB where
  "directory = \<lparr>users = [alice, bob], mutations = [], conn_fails = (\<lambda>op. False)\<rparr>"

definition lookups_down :: ClickHouseDB where
  "lookups_down = \<lparr>users = [alice], mutations = [],
                    conn_fails = (\<lambda>op. op = QueryUserByUsername \<or> op = QueryUserByEmail)\<rparr>"

definition long_lived_service :: AuthService where
  "long_lived_service = \<lparr>jwtSecret = ''k3y'', jwtExpire = 2562048\<rparr>"


definition bearer_request :: Context where
  "bearer_request = \<lparr>Authorization = ''Bearer tok'', query_page = 1, query_per_page = 10,
                      query_role = [], store = Map.empty\<rparr>"

definition example_validate :: "string \<Rightarrow> auth_error + JWTPayload" where
  "example_validate t =
     (if t = ''tok''
      then Inr \<lparr>UserID = 7, jp_Username = ''alice'', jp_Role = ''user'', Exp = 100, Iat = 0\<rparr>
      else Inl (InvalidToken ErrTokenMalformed))"

definition admin_gate :: JWTConfig where
  "admin_gate = \<lparr>Skipper = None, AuthService_ValidateJWT = example_validate,
                  RequiredRole = ''admin''\<rparr>"

definition skipping_gate :: JWTConfig where
  "skipping_gate = \<lparr>Skipper = Some (\<lambda>c. True), AuthService_ValidateJWT = example_validate,
                     RequiredRole = ''admin''\<rparr>"

definition ok_handler :: HandlerFunc where
  "ok_handler c = JSON 200 \<lparr>Success = True, Data = NoData, ErrorText = []\<rparr>"

text \<open>A handler that answers 200 when a user identifier is bound in its context, else 204.\<close>

definition probe_handler :: HandlerFunc where
  "probe_handler c =
     JSON (if store c ''user_id'' = None then 204 else 200)
       \<lparr>Success = True, Data = NoData, ErrorText = []\<rparr>"

text \<open>The directory after alice has registered in an empty one.\<close>

definition registered :: ClickHouseDB where
  "registered = snd (Register example_bcrypt no_users 1700000000000000000 1700000000000000001
                       1700000000000000123 alice_request)"

text \<open>The \<open>exp\<close> claim that a token carries, in seconds since the epoch.\<close>

definition embedded_expiry :: "token_string \<Rightarrow> int option" where
  "embedded_expiry tokenString =
     (case tokenString of
        Compact _ claims _ \<Rightarrow>
          (case map_of claims ''exp'' of Some (Number e) \<Rightarrow> Some e | _ \<Rightarrow> None)
      | Garbled _ \<Rightarrow> None)"

section \<open>Lookups in the directory\<close>

text \<open>No lookup returns a record: a matching row fails at the scan of its identifier.\<close>

lemma QueryRow_not_Inr: "QueryRow ch op P \<noteq> Inr u"
  by (simp add: QueryRow_def Scan_UInt64_int64_def split: option.splits)

lemma lookup_errs:
  "\<exists>e. GetUserByUsername ch n = Inl e" "\<exists>e. GetUserByEmail ch m = Inl e"
  "\<exists>e. GetUserByID ch i = Inl e"
  by (simp_all add: GetUserByUsername_def GetUserByEmail_def GetUserByID_def QueryRow_def
      Scan_UInt64_int64_def split: option.splits)

section \<open>Registration\<close>

text \<open>
  C1. The identifier that \<open>Register\<close> returns should be the one the new record is stored
  under. It is not: registering alice in an empty directory at clock reading
  1700000000000000123 returns that reading as the identifier, the stored row has the
  identifier 0, and the lookup by the returned identifier finds no row.
\<close>

theorem register_identifier_not_stored:
  "fst (Register example_bcrypt no_users 1700000000000000000 1700000000000000001
          1700000000000000123 alice_request)
     = Inr \<lparr>ID = 1700000000000000123, Username = ''alice'', Email = ''alice@x.com'',
            Password = [], Role = ''user'', IsActive = True,
            CreatedAt = 1700000000000000000, UpdatedAt = 1700000000000000001,
            LastLogin = None\<rparr>
   \<and> map ID (users (snd (Register example_bcrypt no_users 1700000000000000000
          1700000000000000001 1700000000000000123 alice_request))) = [0]
   \<and> GetUserByID (snd (Register example_bcrypt no_users 1700000000000000000
          1700000000000000001 1700000000000000123 alice_request)) 1700000000000000123
     = Inl ErrNoRows"
  by (simp add: Register_def example_bcrypt_def no_users_def alice_request_def
      GetUserByUsername_def GetUserByEmail_def GetUserByID_def QueryRow_def InsertUser_def
      UnixNano_def wrap64_def Let_def)

lemma registered_eq:
  "registered = \<lparr>users = [\<lparr>ID = 0, Username = ''alice'', Email = ''alice@x.com'',
            Password = ''$2a$secret1'', Role = ''user'', IsActive = True,
            CreatedAt = 1700000000000000000, UpdatedAt = 1700000000000000000,
            LastLogin = None\<rparr>], mutations = [], conn_fails = (\<lambda>op. False)\<rparr>"
  by (simp add: registered_def Register_def example_bcrypt_def no_users_def alice_request_def
      GetUserByUsername_def GetUserByEmail_def QueryRow_def InsertUser_def
      UnixNano_def wrap64_def Let_def DateTime_def)

text \<open>
  C10. \<open>Register\<close> answers with the duplicate-username error exactly when the lookup by
  username returns a record, and with the duplicate-email error exactly when the lookup
  by username returns an error and the lookup by email returns a record. When both
  lookups return an error (no row, or a failure of the query itself), the hash is
  computed and the insert not failing, the registration succeeds and the new row is
  appended, whatever rows the directory already holds.
\<close>

theorem register_duplicate_precheck:
  "((\<exists>n. fst (Register bc ch t1 t2 t3 req) = Inl (UsernameExists n))
      \<longleftrightarrow> (\<exists>u. GetUserByUsername ch (cr_Username req) = Inr u))
   \<and> ((\<exists>m. fst (Register bc ch t1 t2 t3 req) = Inl (EmailExists m))
      \<longleftrightarrow> (\<exists>e. GetUserByUsername ch (cr_Username req) = Inl e)
          \<and> (\<exists>u. GetUserByEmail ch (cr_Email req) = Inr u))
   \<and> (GetUserByUsername ch (cr_Username req) = Inl e1
        \<and> GetUserByEmail ch (cr_Email req) = Inl e2
        \<and> GenerateFromPassword bc (cr_Password req) = Inr hashed
        \<and> \<not> conn_fails ch ExecInsertUser
      \<longrightarrow> Register bc ch t1 t2 t3 req
          = (Inr \<lparr>ID = UnixNano t3, Username = cr_Username req, Email = cr_Email req,
                  Password = [], Role = (if cr_Role req = [] then ''user'' else cr_Role req),
                  IsActive = True, CreatedAt = t1, UpdatedAt = t2, LastLogin = None\<rparr>,
             ch\<lparr>users := users ch @
                  [\<lparr>ID = 0, Username = cr_Username req, Email = cr_Email req,
                    Password = hashed,
                    Role = (if cr_Role req = [] then ''user'' else cr_Role req),
                    IsActive = True, CreatedAt = DateTime t1, UpdatedAt = DateTime t2,
                    LastLogin = None\<rparr>]\<rparr>))"
proof (intro conjI impI)
  show "(\<exists>n. fst (Register bc ch t1 t2 t3 req) = Inl (UsernameExists n))
      \<longleftrightarrow> (\<exists>u. GetUserByUsername ch (cr_Username req) = Inr u)"
    by (auto simp: Register_def InsertUser_def Let_def split: sum.splits)
  show "(\<exists>m. fst (Register bc ch t1 t2 t3 req) = Inl (EmailExists m))
      \<longleftrightarrow> (\<exists>e. GetUserByUsername ch (cr_Username req) = Inl e)
          \<and> (\<exists>u. GetUserByEmail ch (cr_Email req) = Inr u)"
    by (auto simp: Register_def InsertUser_def Let_def split: sum.splits)
next
  assume "GetUserByUsername ch (cr_Username req) = Inl e1
        \<and> GetUserByEmail ch (cr_Email req) = Inl e2
        \<and> GenerateFromPassword bc (cr_Password req) = Inr hashed
        \<and> \<not> conn_fails ch ExecInsertUser"
  then show "Register bc ch t1 t2 t3 req
          = (Inr \<lparr>ID = UnixNano t3, Username = cr_Username req, Email = cr_Email req,
                  Password = [], Role = (if cr_Role req = [] then ''user'' else cr_Role req),
                  IsActive = True, CreatedAt = t1, UpdatedAt = t2, LastLogin = None\<rparr>,
             ch\<lparr>users := users ch @
                  [\<lparr>ID = 0, Username = cr_Username req, Email = cr_Email req,
                    Password = hashed,
                    Role = (if cr_Role req = [] then ''user'' else cr_Role req),
                    IsActive = True, CreatedAt = DateTime t1, UpdatedAt = DateTime t2,
                    LastLogin = None\<rparr>]\<rparr>)"
    by (simp add: Register_def InsertUser_def Let_def)
qed

theorem register_duplicate_precheck_witness:
  "GetUserByUsername lookups_down ''alice'' = Inl (ErrDriver QueryUserByUsername)
   \<and> GetUserByEmail lookups_down ''alice@x.com'' = Inl (ErrDriver QueryUserByEmail)
   \<and> map Username (users (snd (Register example_bcrypt lookups_down 5000 5000 5001 alice_request)))
       = [''alice'', ''alice'']
   \<and> (\<exists>u. fst (Register example_bcrypt lookups_down 5000 5000 5001 alice_request) = Inr u)"
proof -
  have u: "GetUserByUsername lookups_down (cr_Username alice_request)
             = Inl (ErrDriver QueryUserByUsername)"
    by (simp add: GetUserByUsername_def QueryRow_def lookups_down_def)
  have e: "GetUserByEmail lookups_down (cr_Email alice_request)
             = Inl (ErrDriver QueryUserByEmail)"
    by (simp add: GetUserByEmail_def QueryRow_def lookups_down_def)
  have h: "GenerateFromPassword example_bcrypt (cr_Password alice_request) = Inr ''$2a$secret1''"
    by (simp add: example_bcrypt_def alice_request_def)
  have i: "\<not> conn_fails lookups_down ExecInsertUser"
    by (simp add: lookups_down_def)
  from u e h i
    register_duplicate_precheck [of example_bcrypt lookups_down 5000 5000 5001 alice_request
      "ErrDriver QueryUserByUsername" "ErrDriver QueryUserByEmail" "''$2a$secret1''"]
  have "Register example_bcrypt lookups_down 5000 5000 5001 alice_request
          = (Inr \<lparr>ID = UnixNano 5001, Username = cr_Username alice_request,
                  Email = cr_Email alice_request, Password = [],
                  Role = (if cr_Role alice_request = [] then ''user'' else cr_Role alice_request),
                  IsActive = True, CreatedAt = 5000, UpdatedAt = 5000, LastLogin = None\<rparr>,
             lookups_down\<lparr>users := users lookups_down @
                  [\<lparr>ID = 0, Username = cr_Username alice_request,
                    Email = cr_Email alice_request, Password = ''$2a$secret1'',
                    Role = (if cr_Role alice_request = [] then ''user''
                            else cr_Role alice_request),
                    IsActive = True, CreatedAt = DateTime 5000, UpdatedAt = DateTime 5000,
                    LastLogin = None\<rparr>]\<rparr>)"
    by blast
  with u e show ?thesis
    by (simp add: alice_request_def lookups_down_def alice_def)
qed

section \<open>Login\<close>

text \<open>
  C4. A login under a username that no row of the directory carries, with any password,
  and a login under the username of an existing active user \<open>v\<close> with a password that
  does not match the stored hash, both fail with the same error value,
  \<open>InvalidCredentials\<close>, whose message is "invalid credentials", and leave the directory
  as it was.
\<close>

theorem login_no_username_enumeration:
  assumes ghost: "u \<notin> Username ` set (users ch)"
    and existing: "v \<in> set (users ch)"
    and active: "IsActive v"
    and wrong: "\<not> CompareHashAndPassword bc (Password v) wrong_password"
  shows "Login bc s ch t1 jti t2 t3 \<lparr>lg_Username = u, lg_Password = any_password\<rparr>
           = (Inl InvalidCredentials, ch)
       \<and> Login bc s ch t1 jti t2 t3 \<lparr>lg_Username = Username v, lg_Password = wrong_password\<rparr>
           = (Inl InvalidCredentials, ch)
       \<and> Error InvalidCredentials = ''invalid credentials''"
proof -
  have "\<exists>e. GetUserByUsername ch u = Inl e" "\<exists>e. GetUserByUsername ch (Username v) = Inl e"
    by (rule lookup_errs)+
  then show ?thesis by (auto simp: Login_def)
qed

theorem login_no_username_enumeration_witness:
  "''ghost'' \<notin> Username ` set (users directory)
   \<and> alice \<in> set (users directory)
   \<and> IsActive alice
   \<and> \<not> CompareHashAndPassword example_bcrypt (Password alice) ''wrongpw''
   \<and> Login example_bcrypt example_service directory 10 ''a1'' 11 12
        \<lparr>lg_Username = ''ghost'', lg_Password = ''x''\<rparr> = (Inl InvalidCredentials, directory)
   \<and> Login example_bcrypt example_service directory 10 ''a1'' 11 12
        \<lparr>lg_Username = ''alice'', lg_Password = ''wrongpw''\<rparr> = (Inl InvalidCredentials, directory)"
proof -
  have g: "''ghost'' \<notin> Username ` set (users directory)"
    by (simp add: directory_def alice_def bob_def)
  have e: "alice \<in> set (users directory)"
    by (simp add: directory_def)
  have a: "IsActive alice"
    by (simp add: alice_def)
  have w: "\<not> CompareHashAndPassword example_bcrypt (Password alice) ''wrongpw''"
    by (simp add: example_bcrypt_def alice_def)
  have n: "Username alice = ''alice''"
    by (simp add: alice_def)
  from login_no_username_enumeration [OF g e a w, of example_service 10 "''a1''" 11 12 "''x''"]
    g e a w n
  show ?thesis by simp
qed



section \<open>Profile update\<close>

text \<open>
  C8. An update request with no username, no email, no role and no active flag should
  leave the stored fields of an existing user as they are and refresh \<open>updated_at\<close>.
  It refreshes nothing: alice, registered through \<open>Register\<close>, is stored under the
  identifier 0; the update for that identifier fails with "user not found" at the scan of
  the row, the update for the identifier that \<open>Register\<close> returned finds no row, and
  both leave the directory, the queue of mutations included, as it was.
\<close>

theorem update_profile_user_not_found:
  "map ID (users registered) = [0]
   \<and> AuthService_UpdateUser registered 1700000005000000000 0
        \<lparr>up_Username = [], up_Email = [], up_Role = [], up_IsActive = None\<rparr>
       = (Inl (UserNotFound ErrConvert), registered)
   \<and> AuthService_UpdateUser registered 1700000005000000000 1700000000000000123
        \<lparr>up_Username = [], up_Email = [], up_Role = [], up_IsActive = None\<rparr>
       = (Inl (UserNotFound ErrNoRows), registered)"
  by (simp add: registered_eq AuthService_UpdateUser_def GetUserByID_def QueryRow_def
      Scan_UInt64_int64_def)

section \<open>Listing users\<close>


text \<open>The same for every directory and every request.\<close>

lemma list_users_never_lists: "ClickHouseDB_GetUsers ch page perPage role \<noteq> Inr resp"
  by (simp add: ClickHouseDB_GetUsers_def Scan_UInt64_int64_def Let_def)

lemma handler_passes_pagination:
  "AuthHandler_GetUsers ch c =
     (if store c ''user_role'' \<noteq> Some (StringVal ''admin'')
      then JSON 403 \<lparr>Success = False, Data = NoData,
                     ErrorText = ''Access denied - admin role required''\<rparr>
      else case AuthService_GetUsers ch (fst (GetUsers_pagination c))
                  (snd (GetUsers_pagination c)) (query_role c) of
             Inl (QueryFailed e) \<Rightarrow>
               JSON 500 \<lparr>Success = False, Data = NoData, ErrorText = ''Failed to get users''\<rparr>
           | Inl PanicDivideByZero \<Rightarrow> Panic
           | Inr found \<Rightarrow> JSON 200 \<lparr>Success = True, Data = UserList found, ErrorText = []\<rparr>)"
  by (simp add: AuthHandler_GetUsers_def GetUsers_pagination_def Let_def)




section \<open>The access gate\<close>

text \<open>
  C9, with the skipper: a request that the configured skipper exempts is handed to the
  downstream handler as it is, with no check made and nothing bound in its context.
  When the skipper does not exempt the request, the request carries
  \<open>Authorization: Bearer token\<close> with a non-empty token that the auth service verifies,
  and a required role is configured, then a payload role different from the required
  role gives the response 403 "Insufficient permissions", whatever the downstream handler
  is (it is not called); and an equal role hands the request to the downstream handler
  with the user identifier, the username and the role bound in the context.
\<close>

theorem gate_role_check:
  "((case Skipper config of None \<Rightarrow> DefaultSkipper | Some f \<Rightarrow> f) c
      \<longrightarrow> JWTWithConfig config next c = next c)
   \<and> (\<not> (case Skipper config of None \<Rightarrow> DefaultSkipper | Some f \<Rightarrow> f) c
        \<and> Authorization c = ''Bearer '' @ token \<and> token \<noteq> []
        \<and> AuthService_ValidateJWT config token = Inr payload
        \<and> RequiredRole config \<noteq> []
      \<longrightarrow> JWTWithConfig config next c =
           (if jp_Role payload \<noteq> RequiredRole config
            then JSON 403 \<lparr>Success = False, Data = NoData,
                           ErrorText = ''Insufficient permissions''\<rparr>
            else next (c\<lparr>store := (store c)
                              (''user_id'' \<mapsto> Int64Val (UserID payload),
                               ''username'' \<mapsto> StringVal (jp_Username payload),
                               ''user_role'' \<mapsto> StringVal (jp_Role payload))\<rparr>)))"
  by (simp add: JWTWithConfig_def HasPrefix_def TrimPrefix_def Let_def)

theorem gate_role_check_witness:
  "(case Skipper skipping_gate of None \<Rightarrow> DefaultSkipper | Some f \<Rightarrow> f) bearer_request
   \<and> JWTWithConfig skipping_gate probe_handler bearer_request = probe_handler bearer_request
   \<and> \<not> (case Skipper admin_gate of None \<Rightarrow> DefaultSkipper | Some f \<Rightarrow> f) bearer_request
   \<and> Authorization bearer_request = ''Bearer '' @ ''tok''
   \<and> AuthService_ValidateJWT admin_gate ''tok''
       = Inr \<lparr>UserID = 7, jp_Username = ''alice'', jp_Role = ''user'', Exp = 100, Iat = 0\<rparr>
   \<and> RequiredRole admin_gate = ''admin''
   \<and> JWTWithConfig admin_gate probe_handler bearer_request
       = JSON 403 \<lparr>Success = False, Data = NoData, ErrorText = ''Insufficient permissions''\<rparr>"
proof -
  have k: "(case Skipper skipping_gate of None \<Rightarrow> DefaultSkipper | Some f \<Rightarrow> f) bearer_request"
    by (simp add: skipping_gate_def)
  have s: "\<not> (case Skipper admin_gate of None \<Rightarrow> DefaultSkipper | Some f \<Rightarrow> f) bearer_request"
    by (simp add: admin_gate_def DefaultSkipper_def)
  have a: "Authorization bearer_request = ''Bearer '' @ ''tok''"
    by (simp add: bearer_request_def)
  have t: "''tok'' \<noteq> []" by simp
  have v: "AuthService_ValidateJWT admin_gate ''tok''
       = Inr \<lparr>UserID = 7, jp_Username = ''alice'', jp_Role = ''user'', Exp = 100, Iat = 0\<rparr>"
    by (simp add: admin_gate_def example_validate_def)
  have r: "RequiredRole admin_gate \<noteq> []" "RequiredRole admin_gate = ''admin''"
    by (simp_all add: admin_gate_def)
  from k gate_role_check [of skipping_gate bearer_request probe_handler]
  have skipped: "JWTWithConfig skipping_gate probe_handler bearer_request
                   = probe_handler bearer_request"
    by blast
  from s a t v r(1)
    gate_role_check [of admin_gate bearer_request probe_handler "''tok''"
      "\<lparr>UserID = 7, jp_Username = ''alice'', jp_Role = ''user'', Exp = 100, Iat = 0\<rparr>"]
  have "JWTWithConfig admin_gate probe_handler bearer_request =
           (if jp_Role \<lparr>UserID = 7, jp_Username = ''alice'', jp_Role = ''user'', Exp = 100,
                        Iat = 0\<rparr> \<noteq> RequiredRole admin_gate
            then JSON 403 \<lparr>Success = False, Data = NoData,
                           ErrorText = ''Insufficient permissions''\<rparr>
            else probe_handler (bearer_request\<lparr>store := (store bearer_request)
                              (''user_id'' \<mapsto> Int64Val (UserID \<lparr>UserID = 7, jp_Username = ''alice'', jp_Role = ''user'', Exp = 100, Iat = 0\<rparr>),
                               ''username'' \<mapsto> StringVal (jp_Username \<lparr>UserID = 7, jp_Username = ''alice'', jp_Role = ''user'', Exp = 100, Iat = 0\<rparr>),
                               ''user_role'' \<mapsto> StringVal (jp_Role \<lparr>UserID = 7, jp_Username = ''alice'', jp_Role = ''user'', Exp = 100, Iat = 0\<rparr>))\<rparr>))"
    by blast
  with k s a v r(2) skipped show ?thesis by simp
qed

text \<open>
  C9 as stated fails for a gate whose skipper exempts the request: the token verifies,
  its role ''user'' differs from the required role ''admin'', and the downstream handler
  is called and finds no user identifier bound in its context.
\<close>

theorem gate_skipper_counterexample:
  "AuthService_ValidateJWT skipping_gate ''tok''
       = Inr \<lparr>UserID = 7, jp_Username = ''alice'', jp_Role = ''user'', Exp = 100, Iat = 0\<rparr>
   \<and> Authorization bearer_request = ''Bearer tok''
   \<and> RequiredRole skipping_gate = ''admin''
   \<and> JWTWithConfig skipping_gate probe_handler bearer_request
       = JSON 204 \<lparr>Success = True, Data = NoData, ErrorText = []\<rparr>"
  by (simp add: JWTWithConfig_def skipping_gate_def probe_handler_def example_validate_def
      bearer_request_def)

section \<open>Tokens\<close>

lemma wrap64_id:
  "- 9223372036854775808 \<le> n \<Longrightarrow> n < 9223372036854775808 \<Longrightarrow> wrap64 n = n"
  by (simp add: wrap64_def)

text \<open>Text in ASCII is well-formed UTF-8, and so is the replacement character.\<close>

lemma coerce_ascii: "\<forall>c\<in>set s. of_char c < (128::nat) \<Longrightarrow> coerce 0 s = s"
  by (induction s) (simp_all add: rune_length_def)

lemma ascii_valid: "\<forall>c\<in>set s. of_char c < (128::nat) \<Longrightarrow> ToValidUTF8 s = s"
  by (simp add: ToValidUTF8_def coerce_ascii)

lemma claim_keys:
  "ToValidUTF8 ''user_id'' = ''user_id''" "ToValidUTF8 ''username'' = ''username''"
  "ToValidUTF8 ''role'' = ''role''" "ToValidUTF8 ''exp'' = ''exp''"
  "ToValidUTF8 ''iat'' = ''iat''" "ToValidUTF8 ''jti'' = ''jti''"
  by (rule ascii_valid, simp)+

lemma coerce_numeral:
  "coerce (numeral k) (c # cs) = c # coerce (pred_numeral k) cs"
  "coerce 1 (c # cs) = c # coerce 0 cs"
  by (simp_all add: numeral_eq_Suc)

lemma rune_error_valid: "ToValidUTF8 RuneError = RuneError"
  by (simp add: ToValidUTF8_def RuneError_def rune_length_def second_byte_def continuation_def
      coerce_numeral)

lemma invalid_byte: "ToValidUTF8 [CHR 0xFF] = RuneError"
  by (simp add: ToValidUTF8_def rune_length_def)

lemma bit_length_le: "n < 2 ^ k \<Longrightarrow> bit_length n \<le> k"
proof (induction k arbitrary: n)
  case 0
  then show ?case by (subst bit_length.simps) simp
next
  case (Suc k)
  then have "n div 2 < 2 ^ k" by simp
  with Suc.IH have "bit_length (n div 2) \<le> k" by blast
  then show ?case by (subst bit_length.simps) simp
qed

lemma bit_length_ge: "2 ^ k \<le> n \<Longrightarrow> k < bit_length n"
proof (induction k arbitrary: n)
  case 0
  then show ?case by (subst bit_length.simps) simp
next
  case (Suc k)
  then have "2 ^ k \<le> n div 2" by simp
  with Suc.IH have "k < bit_length (n div 2)" by blast
  moreover have "0 < (2::nat) ^ Suc k" by simp
  with Suc.prems have "n \<noteq> 0" by linarith
  ultimately show ?case by (subst bit_length.simps) simp
qed

lemma bit_length_eq: "2 ^ k \<le> n \<Longrightarrow> n < 2 ^ Suc k \<Longrightarrow> bit_length n = Suc k"
  using bit_length_le [of n "Suc k"] bit_length_ge [of k n] by simp

text \<open>An integer of magnitude below \<open>2^53\<close> is a \<open>float64\<close> as it is.\<close>

lemma float64_of_int_exact:
  assumes "\<bar>n\<bar> < 9007199254740992"
  shows "float64_of_int n = n"
proof -
  have "nat \<bar>n\<bar> < 2 ^ 53" using assms by simp
  then have "bit_length (nat \<bar>n\<bar>) - 53 = 0"
    using bit_length_le by fastforce
  then show ?thesis
    by (simp add: float64_of_int_def Let_def mult_sgn_abs)
qed

lemma int64_of_float64_id: "\<bar>f\<bar> < 9007199254740992 \<Longrightarrow> int64_of_float64 f = f"
  unfolding int64_of_float64_def by (simp add: abs_less_iff)

text \<open>An identifier of the size \<open>InsertUser\<close> generates is not: the nearest double is taken.\<close>

lemma float64_of_unix_nano_id:
  "float64_of_int 1700000000000000123 = 1700000000000000000"
proof -
  have "bit_length 1700000000000000123 = 61"
    using bit_length_eq [of 60 1700000000000000123] by simp
  then show ?thesis
    by (simp add: float64_of_int_def Let_def)
qed

lemma float64_of_round_id:
  "float64_of_int 1700000000000000000 = 1700000000000000000"
proof -
  have "bit_length 1700000000000000000 = 61"
    using bit_length_eq [of 60 1700000000000000000] by simp
  then show ?thesis
    by (simp add: float64_of_int_def Let_def)
qed

lemma validate_issued:
  "ValidateJWT s now (Compact SigningMethodHS256
       [(''user_id'', Number userID), (''username'', Text username), (''role'', Text role),
        (''exp'', Number e), (''iat'', Number i), (''jti'', Text jti)]
       (Mac SigningMethodHS256 (jwtSecret s)
       [(''user_id'', Number userID), (''username'', Text username), (''role'', Text role),
        (''exp'', Number e), (''iat'', Number i), (''jti'', Text jti)]))
   = (if float64_of_int e = 0 \<or> now < float64_of_int e * 1000000000
      then Inr \<lparr>UserID = int64_of_float64 (float64_of_int userID),
                jp_Username = ToValidUTF8 username, jp_Role = ToValidUTF8 role,
                Exp = int64_of_float64 (float64_of_int e),
                Iat = int64_of_float64 (float64_of_int i)\<rparr>
      else Inl (InvalidToken ErrTokenExpired))"
  by (simp add: ValidateJWT_def jwt_Parse_def keyFunc_def SigningMethodHS256_def)

lemma generate_in_range:
  assumes "0 < jwtExpire s" "jwtExpire s \<le> 2562047"
  shows "GenerateJWT s t0 jti userID username role
    = Inr (Compact SigningMethodHS256
       [(''user_id'', Number userID), (''username'', Text (ToValidUTF8 username)),
        (''role'', Text (ToValidUTF8 role)),
        (''exp'', Number (Unix t0 + jwtExpire s * 3600)), (''iat'', Number (Unix t0)),
        (''jti'', Text (ToValidUTF8 jti))]
       (Mac SigningMethodHS256 (jwtSecret s)
       [(''user_id'', Number userID), (''username'', Text (ToValidUTF8 username)),
        (''role'', Text (ToValidUTF8 role)),
        (''exp'', Number (Unix t0 + jwtExpire s * 3600)), (''iat'', Number (Unix t0)),
        (''jti'', Text (ToValidUTF8 jti))]),
       t0 + jwtExpire s * 3600000000000)"
proof -
  have w: "wrap64 (jwtExpire s * 3600000000000) = jwtExpire s * 3600000000000"
    using assms by (intro wrap64_id) simp_all
  have "(t0 + jwtExpire s * 3600 * 1000000000) div 1000000000
          = t0 div 1000000000 + jwtExpire s * 3600"
    by simp
  then have u: "Unix (t0 + jwtExpire s * 3600000000000) = Unix t0 + jwtExpire s * 3600"
    by (simp add: Unix_def)
  show ?thesis
    by (simp add: GenerateJWT_def SignedString_def Let_def w u claim_keys)
qed

lemma expiry_bounds:
  assumes "0 \<le> t0" "t0 < 9223372036854775808" "0 < h" "h \<le> 2562047"
  shows "0 \<le> Unix t0" "Unix t0 < 9223372037" "\<bar>Unix t0 + h * 3600\<bar> < 9007199254740992"
    "\<bar>Unix t0\<bar> < 9007199254740992" "t0 < (Unix t0 + h * 3600) * 1000000000"
proof -
  show a: "0 \<le> Unix t0" using assms by (simp add: Unix_def pos_imp_zdiv_nonneg_iff)
  have "t0 div 1000000000 \<le> 9223372036854775807 div 1000000000"
    using assms by (intro zdiv_mono1) simp_all
  then show b: "Unix t0 < 9223372037" by (simp add: Unix_def)
  from a b assms show "\<bar>Unix t0 + h * 3600\<bar> < 9007199254740992" by simp
  from a b show "\<bar>Unix t0\<bar> < 9007199254740992" by simp
  have "t0 = Unix t0 * 1000000000 + t0 mod 1000000000" by (simp add: Unix_def)
  moreover have "t0 mod 1000000000 < 1000000000" by simp
  ultimately show "t0 < (Unix t0 + h * 3600) * 1000000000"
    using assms by (simp add: algebra_simps)
qed

text \<open>
  C2, where the code keeps it: for a token issued at a clock reading \<open>t0\<close> between 1970
  and 2262 (the range of \<open>UnixNano\<close>), with a configured duration of 1 to 2562047 hours
  (what \<open>time.Duration\<close> can hold), a user identifier (an \<open>int64\<close>) that a \<open>float64\<close>
  holds exactly, and a username and a role that are well-formed UTF-8, the verification
  at \<open>t0\<close> with the same secret succeeds and returns the same user identifier,
  username and role.
\<close>

theorem token_round_trip:
  assumes t0: "0 \<le> t0" "t0 < 9223372036854775808"
    and h: "0 < jwtExpire s" "jwtExpire s \<le> 2562047"
    and int64: "- 9223372036854775808 \<le> userID" "userID < 9223372036854775808"
    and exact: "float64_of_int userID = userID"
    and utf8: "ToValidUTF8 username = username" "ToValidUTF8 role = role"
  shows "case GenerateJWT s t0 jti userID username role of
           Inl _ \<Rightarrow> False
         | Inr (tok, expiresAt) \<Rightarrow>
             ValidateJWT s t0 tok
               = Inr \<lparr>UserID = userID, jp_Username = username, jp_Role = role,
                      Exp = Unix t0 + jwtExpire s * 3600, Iat = Unix t0\<rparr>"
proof -
  note b = expiry_bounds [OF t0 h]
  have e: "float64_of_int (Unix t0 + jwtExpire s * 3600) = Unix t0 + jwtExpire s * 3600"
    using b(3) by (rule float64_of_int_exact)
  have i: "float64_of_int (Unix t0) = Unix t0"
    using b(4) by (rule float64_of_int_exact)
  from b(3,4)
  have c: "int64_of_float64 (Unix t0 + jwtExpire s * 3600) = Unix t0 + jwtExpire s * 3600"
    "int64_of_float64 (Unix t0) = Unix t0"
    by (simp_all add: int64_of_float64_id)
  from int64 have d: "int64_of_float64 userID = userID"
    by (simp add: int64_of_float64_def)
  from b(5) show ?thesis
    by (simp add: generate_in_range [OF h] validate_issued e i exact c d utf8)
qed

theorem token_round_trip_witness:
  "case GenerateJWT example_service 1700000000000000000 ''j1'' 1700000000000000000
          ''alice'' ''user'' of
     Inl _ \<Rightarrow> False
   | Inr (tok, expiresAt) \<Rightarrow>
       ValidateJWT example_service 1700000000000000000 tok
         = Inr \<lparr>UserID = 1700000000000000000, jp_Username = ''alice'', jp_Role = ''user'',
                Exp = 1700086400, Iat = 1700000000\<rparr>"
proof -
  have t: "(0::int) \<le> 1700000000000000000" "(1700000000000000000::int) < 9223372036854775808"
    by simp_all
  have h: "0 < jwtExpire example_service" "jwtExpire example_service \<le> 2562047"
    by (simp_all add: example_service_def)
  have u: "- 9223372036854775808 \<le> (1700000000000000000::int)"
    "(1700000000000000000::int) < 9223372036854775808"
    by simp_all
  have v: "ToValidUTF8 ''alice'' = ''alice''" "ToValidUTF8 ''user'' = ''user''"
    by (rule ascii_valid, simp)+
  have e: "jwtExpire example_service = 24" "Unix 1700000000000000000 = 1700000000"
    by (simp_all add: Unix_def example_service_def)
  from token_round_trip [OF t h u float64_of_round_id v, where jti = "''j1''"]
  show ?thesis
    by (auto simp: e split: sum.splits)
qed

text \<open>
  C2 as stated fails in three ways. With a configured duration of 2562048 hours the
  duration overflows \<open>time.Duration\<close>, the token is born expired and its verification at
  \<open>t0\<close> fails. With the duration 24 hours and the user identifier 1700000000000000123
  (a clock reading in nanoseconds, the identifiers \<open>InsertUser\<close> hands out), the
  verification succeeds and returns the identifier 1700000000000000000: \<open>ValidateJWT\<close>
  reads \<open>user_id\<close> as a \<open>float64\<close>. With the username made of the single byte FF,
  which is not UTF-8, the verification returns the replacement character as username.
\<close>

theorem token_round_trip_counterexample:
  "(case GenerateJWT long_lived_service 1700000000000000000 ''j1'' 7 ''alice'' ''user'' of
      Inl _ \<Rightarrow> False
    | Inr (tok, expiresAt) \<Rightarrow>
        ValidateJWT long_lived_service 1700000000000000000 tok
          = Inl (InvalidToken ErrTokenExpired))
   \<and> (case GenerateJWT example_service 1700000000000000000 ''j1'' 1700000000000000123
             ''alice'' ''user'' of
      Inl _ \<Rightarrow> False
    | Inr (tok, expiresAt) \<Rightarrow>
        ValidateJWT example_service 1700000000000000000 tok
          = Inr \<lparr>UserID = 1700000000000000000, jp_Username = ''alice'', jp_Role = ''user'',
                 Exp = 1700086400, Iat = 1700000000\<rparr>)
   \<and> (case GenerateJWT example_service 1700000000000000000 ''j1'' 7 [CHR 0xFF] ''user'' of
      Inl _ \<Rightarrow> False
    | Inr (tok, expiresAt) \<Rightarrow>
        ValidateJWT example_service 1700000000000000000 tok
          = Inr \<lparr>UserID = 7, jp_Username = [CHR 0xEF, CHR 0xBF, CHR 0xBD], jp_Role = ''user'',
                 Exp = 1700086400, Iat = 1700000000\<rparr>)"
proof (intro conjI)
  have neg: "float64_of_int (- 7523371274) = - 7523371274"
    by (rule float64_of_int_exact) simp
  show "case GenerateJWT long_lived_service 1700000000000000000 ''j1'' 7 ''alice'' ''user'' of
      Inl _ \<Rightarrow> False
    | Inr (tok, expiresAt) \<Rightarrow>
        ValidateJWT long_lived_service 1700000000000000000 tok
          = Inl (InvalidToken ErrTokenExpired)"
    by (simp add: GenerateJWT_def SignedString_def Let_def wrap64_def Unix_def
        ValidateJWT_def jwt_Parse_def keyFunc_def SigningMethodHS256_def long_lived_service_def
        neg claim_keys)
next
  have h: "0 < jwtExpire example_service" "jwtExpire example_service \<le> 2562047"
    by (simp_all add: example_service_def)
  have e: "1700000000 + jwtExpire example_service * 3600 = 1700086400"
    and i: "Unix 1700000000000000000 = 1700000000"
    by (simp_all add: Unix_def example_service_def)
  have v: "ToValidUTF8 ''alice'' = ''alice''" "ToValidUTF8 ''user'' = ''user''"
    by (rule ascii_valid, simp)+
  note g = generate_in_range [OF h, of 1700000000000000000 "''j1''" 1700000000000000123
             "''alice''" "''user''", unfolded i e]
  show "case GenerateJWT example_service 1700000000000000000 ''j1'' 1700000000000000123
             ''alice'' ''user'' of
      Inl _ \<Rightarrow> False
    | Inr (tok, expiresAt) \<Rightarrow>
        ValidateJWT example_service 1700000000000000000 tok
          = Inr \<lparr>UserID = 1700000000000000000, jp_Username = ''alice'', jp_Role = ''user'',
                 Exp = 1700086400, Iat = 1700000000\<rparr>"
    by (simp add: g validate_issued float64_of_unix_nano_id float64_of_int_exact
        int64_of_float64_def v)
  have r: "ToValidUTF8 [CHR 0xFF] = [CHR 0xEF, CHR 0xBF, CHR 0xBD]"
    using invalid_byte by (simp add: RuneError_def)
  have r2: "ToValidUTF8 [CHR 0xEF, CHR 0xBF, CHR 0xBD] = [CHR 0xEF, CHR 0xBF, CHR 0xBD]"
    using rune_error_valid by (simp add: RuneError_def)
  note g2 = generate_in_range [OF h, of 1700000000000000000 "''j1''" 7
             "[CHR 0xFF]" "''user''", unfolded i e]
  show "case GenerateJWT example_service 1700000000000000000 ''j1'' 7 [CHR 0xFF] ''user'' of
      Inl _ \<Rightarrow> False
    | Inr (tok, expiresAt) \<Rightarrow>
        ValidateJWT example_service 1700000000000000000 tok
          = Inr \<lparr>UserID = 7, jp_Username = [CHR 0xEF, CHR 0xBF, CHR 0xBD], jp_Role = ''user'',
                 Exp = 1700086400, Iat = 1700000000\<rparr>"
    by (simp add: g2 validate_issued float64_of_int_exact int64_of_float64_def v r r2)
qed

text \<open>
  C3, within the range of \<open>time.Duration\<close>: for a token issued at a clock reading \<open>t0\<close>
  between 1970 and 2262 with a configured duration of 1 to 2562047 hours, the returned
  expiry is \<open>t0\<close> plus that many hours, the embedded \<open>exp\<close> claim is that instant in
  seconds (the issue time in seconds plus 3600 per hour), and the verification at any
  clock reading past the embedded expiry fails with the cause \<open>ErrTokenExpired\<close>.
\<close>

theorem token_expiry:
  assumes t0: "0 \<le> t0" "t0 < 9223372036854775808"
    and h: "0 < jwtExpire s" "jwtExpire s \<le> 2562047"
    and past: "(Unix t0 + jwtExpire s * 3600) * 1000000000 < now"
  shows "case GenerateJWT s t0 jti userID username role of
           Inl _ \<Rightarrow> False
         | Inr (tok, expiresAt) \<Rightarrow>
             expiresAt = t0 + jwtExpire s * 3600000000000
             \<and> embedded_expiry tok = Some (Unix expiresAt)
             \<and> Unix expiresAt = Unix t0 + jwtExpire s * 3600
             \<and> ValidateJWT s now tok = Inl (InvalidToken ErrTokenExpired)"
proof -
  have "float64_of_int (Unix t0 + jwtExpire s * 3600) = Unix t0 + jwtExpire s * 3600"
    using expiry_bounds(3) [OF t0 h] by (rule float64_of_int_exact)
  moreover have "(t0 + jwtExpire s * 3600 * 1000000000) div 1000000000
          = t0 div 1000000000 + jwtExpire s * 3600"
    by simp
  then have "Unix (t0 + jwtExpire s * 3600000000000) = Unix t0 + jwtExpire s * 3600"
    by (simp add: Unix_def)
  moreover have "Unix t0 + jwtExpire s * 3600 \<noteq> 0"
    using expiry_bounds(1) [OF t0 h] h by simp
  ultimately show ?thesis using past
    by (simp add: generate_in_range [OF h] validate_issued embedded_expiry_def)
qed

theorem token_expiry_witness:
  "case GenerateJWT example_service 1700000000000000000 ''j1'' 7 ''alice'' ''user'' of
     Inl _ \<Rightarrow> False
   | Inr (tok, expiresAt) \<Rightarrow>
       expiresAt = 1700086400000000000
       \<and> embedded_expiry tok = Some 1700086400
       \<and> ValidateJWT example_service 1700086401000000000 tok
           = Inl (InvalidToken ErrTokenExpired)"
proof -
  have t: "(0::int) \<le> 1700000000000000000" "(1700000000000000000::int) < 9223372036854775808"
    by simp_all
  have h: "0 < jwtExpire example_service" "jwtExpire example_service \<le> 2562047"
    by (simp_all add: example_service_def)
  have p: "(Unix 1700000000000000000 + jwtExpire example_service * 3600) * 1000000000
             < 1700086401000000000"
    by (simp add: Unix_def example_service_def)
  have e: "1700000000000000000 + jwtExpire example_service * 3600000000000
             = 1700086400000000000"
    "Unix 1700000000000000000 + jwtExpire example_service * 3600 = 1700086400"
    by (simp_all add: Unix_def example_service_def)
  from token_expiry [OF t h p, where jti = "''j1''" and userID = 7 and username = "''alice''"
         and role = "''user''"]
  show ?thesis
    by (auto simp: e split: sum.splits)
qed

text \<open>
  C3 as stated fails beyond that range: with a configured duration of 2562048 hours the
  duration in nanoseconds wraps around, and the token issued at 1700000000000000000
  expires at a negative instant, not at \<open>t0\<close> plus the duration.
\<close>

theorem token_expiry_counterexample:
  "case GenerateJWT long_lived_service 1700000000000000000 ''j1'' 7 ''alice'' ''user'' of
     Inl _ \<Rightarrow> False
   | Inr (tok, expiresAt) \<Rightarrow>
       expiresAt = - 7523371273709551616
       \<and> embedded_expiry tok = Some (- 7523371274)
       \<and> expiresAt \<noteq> 1700000000000000000 + jwtExpire long_lived_service * 3600000000000
       \<and> embedded_expiry tok
           \<noteq> Some (Unix (1700000000000000000 + jwtExpire long_lived_service * 3600000000000))"
  by (simp add: GenerateJWT_def SignedString_def Let_def wrap64_def Unix_def
      embedded_expiry_def long_lived_service_def claim_keys)

end
